theory Spec2Isabelle
  imports Main "HOL-Library.Multiset"
begin

section \<open>Strings and paths\<close>

text \<open>
  JavaScript strings are modelled as \<open>string\<close> (a list of characters). A value that may be
  \<^verbatim>\<open>undefined\<close> (an environment variable, a request header, a form field) is a
  \<open>string option\<close>; \<^verbatim>\<open>!v\<close> holds for \<^verbatim>\<open>undefined\<close> and for the empty
  string.
\<close>

definition falsy :: "string option \<Rightarrow> bool" where
  "falsy v = (case v of None \<Rightarrow> True | Some s \<Rightarrow> s = [])"

text \<open>\<^verbatim>\<open>v || ''\<close> on an optional string.\<close>

definition or_empty :: "string option \<Rightarrow> string" where
  "or_empty v = (case v of None \<Rightarrow> [] | Some s \<Rightarrow> s)"

text \<open>\<^verbatim>\<open>String.prototype.includes\<close>: the pattern occurs at some position.\<close>

fun includes_js :: "string \<Rightarrow> string \<Rightarrow> bool" where
  "includes_js [] p = (p = [])"
| "includes_js (c # s) p = (take (length p) (c # s) = p \<or> includes_js s p)"

text \<open>\<^verbatim>\<open>String.prototype.toLowerCase\<close> on the ASCII letters (other characters are kept).\<close>

definition lower_char :: "char \<Rightarrow> char" where
  "lower_char c =
     (case map_of (zip ''ABCDEFGHIJKLMNOPQRSTUVWXYZ'' ''abcdefghijklmnopqrstuvwxyz'') c of
        None \<Rightarrow> c
      | Some d \<Rightarrow> d)"

definition toLowerCase :: "string \<Rightarrow> string" where
  "toLowerCase s = map lower_char s"

text \<open>
  \<^verbatim>\<open>path.extname\<close> of Node (POSIX flavour, the platform of the repository's container
  image). The function scans the path from its last character to its first and keeps five
  variables; \<open>-1\<close> means "not seen yet", as in Node.
\<close>

record ext_scan =
  startDot :: int
  startPart :: int
  end_pos :: int
  matchedSlash :: bool
  preDotState :: int

definition ext_init :: ext_scan where
  "ext_init = \<lparr>startDot = -1, startPart = 0, end_pos = -1, matchedSlash = True, preDotState = 0\<rparr>"

text \<open>
  \<open>ext_loop path n st\<close> runs the iterations \<open>i = n - 1, ..., 0\<close> of the loop; the
  \<^verbatim>\<open>break\<close> at a separator that follows the last path component ends it early.
\<close>

fun ext_loop :: "string \<Rightarrow> nat \<Rightarrow> ext_scan \<Rightarrow> ext_scan" where
  "ext_loop path 0 st = st"
| "ext_loop path (Suc i) st =
     (let code = path ! i in
      if code = CHR ''/'' then
        (if \<not> matchedSlash st then st\<lparr>startPart := int i + 1\<rparr>
         else ext_loop path i st)
      else
        (let st1 = (if end_pos st = -1 then st\<lparr>matchedSlash := False, end_pos := int i + 1\<rparr>
                    else st);
             st2 = (if code = CHR ''.'' then
                      (if startDot st1 = -1 then st1\<lparr>startDot := int i\<rparr>
                       else if preDotState st1 \<noteq> 1 then st1\<lparr>preDotState := 1\<rparr>
                       else st1)
                    else if startDot st1 \<noteq> -1 then st1\<lparr>preDotState := -1\<rparr>
                    else st1)
         in ext_loop path i st2))"

definition slice :: "string \<Rightarrow> int \<Rightarrow> int \<Rightarrow> string" where
  "slice s a b = take (nat b - nat a) (drop (nat a) s)"

definition extname :: "string \<Rightarrow> string" where
  "extname path =
     (let st = ext_loop path (length path) ext_init in
      if startDot st = -1 \<or> end_pos st = -1 \<or> preDotState st = 0 \<or>
         (preDotState st = 1 \<and> startDot st = end_pos st - 1 \<and> startDot st = startPart st + 1)
      then []
      else slice path (startDot st) (end_pos st))"


section \<open>Data model\<close>

text \<open>
  One entry of \<^verbatim>\<open>metadata.json\<close>. The source stores \<^verbatim>\<open>uploadedAt\<close> as the ISO-8601
  text of \<^verbatim>\<open>new Date()\<close> and compares entries through \<^verbatim>\<open>new Date(...)\<close>; the model keeps
  the instant itself, in milliseconds.
\<close>

record software =
  id' :: string
  name :: string
  version :: string
  description :: string
  originalFilename :: string
  serverFilename :: string
  uploadedAt :: int
  size' :: nat

text \<open>
  The file part of a multipart form, and \<^verbatim>\<open>req.file\<close> as multer's disk storage leaves
  it: the part together with the name it was stored under. \<^verbatim>\<open>req.file.path\<close> is that
  name inside the upload directory.
\<close>

record file_part =
  originalname :: string
  byte_count :: nat

record multer_file = file_part +
  filename :: string

text \<open>
  An upload request: the token header, the file parts of the multipart form in the order of
  the form, each with the name of its field, and the text fields.
\<close>

record upload_request =
  x_upload_token :: "string option"
  file_parts :: "(string \<times> file_part) list"
  softwareName :: "string option"
  softwareVersion :: "string option"
  softwareDescription :: "string option"

text \<open>
  The content of \<^verbatim>\<open>metadata.json\<close>: text that \<^verbatim>\<open>JSON.parse\<close> rejects, or a JSON value,
  which is an array of records or something else.
\<close>

datatype json = JArray "software list" | JOther

datatype metadata_content = Unparsable | Json json

datatype js_error = FsError string | SyntaxError | TypeError

text \<open>What a handler does to the outside, in order.\<close>

datatype event =
    Parse_multipart
  | Store_file string
  | Unlink string
  | Access string
  | Read_metadata
  | Write_metadata
  | Send_file string
  | Console_error string
  | Console_warn string

text \<open>
  The shared state of the process: the upload directory (file name to size), the metadata
  file (\<open>None\<close> when it does not exist) and the trace of events.
\<close>

record world =
  uploads_dir :: "string \<rightharpoonup> nat"
  metadata_file :: "metadata_content option"
  events :: "event list"

datatype send_outcome = Sent | Send_failed_early | Send_failed_late

text \<open>
  What one request draws from its environment: the two \<^verbatim>\<open>uuidv4()\<close> results, the clock,
  and the input/output failures that strike during it. \<open>read_fault\<close> makes
  \<^verbatim>\<open>fs.readFile\<close> fail although the file may exist (a permission or device error);
  \<open>store_fault\<close> is the message of a failing write of the uploaded file.
\<close>

record env =
  file_uuid :: string
  record_uuid :: string
  now :: int
  store_fault :: "string option"
  read_fault :: bool
  write_fault :: bool
  unlink_fault :: bool
  access_fault :: bool
  send :: send_outcome

datatype body =
    Message string
  | Created string software
  | Listing "software list"
  | Text string
  | File string string

datatype response = Response (status: nat) (body: body)

definition log :: "event \<Rightarrow> world \<Rightarrow> world" where
  "log ev w = w\<lparr>events := events w @ [ev]\<rparr>"

section \<open>Metadata store\<close>

definition readFile :: "env \<Rightarrow> world \<Rightarrow> js_error + metadata_content" where
  "readFile e w =
     (if read_fault e then Inl (FsError ''EACCES'')
      else
        (case metadata_file w of
           None \<Rightarrow> Inl (FsError ''ENOENT'')
         | Some c \<Rightarrow> Inr c))"

definition JSON_parse :: "metadata_content \<Rightarrow> js_error + json" where
  "JSON_parse c = (case c of Unparsable \<Rightarrow> Inl SyntaxError | Json v \<Rightarrow> Inr v)"

definition error_code :: "js_error \<Rightarrow> string option" where
  "error_code err = (case err of FsError code \<Rightarrow> Some code | _ \<Rightarrow> None)"

definition readMetadata :: "env \<Rightarrow> world \<Rightarrow> (js_error + json) \<times> world" where
  "readMetadata e w =
     (let w1 = log Read_metadata w;
          attempt = (case readFile e w1 of Inl err \<Rightarrow> Inl err | Inr data \<Rightarrow> JSON_parse data)
      in case attempt of
           Inr v \<Rightarrow> (Inr v, w1)
         | Inl error \<Rightarrow>
             (let w2 = log (Console_error ''Error reading metadata:'') w1 in
              if error_code error = Some ''ENOENT'' then (Inr (JArray []), w2)
              else (Inl error, w2)))"

definition writeMetadata :: "env \<Rightarrow> software list \<Rightarrow> world \<Rightarrow> (js_error + unit) \<times> world" where
  "writeMetadata e data w =
     (let w1 = log Write_metadata w in
      if write_fault e
      then (Inl (FsError ''EIO''), log (Console_error ''Error writing metadata:'') w1)
      else (Inr (), w1\<lparr>metadata_file := Some (Json (JArray data))\<rparr>))"

text \<open>An array method called on a value that is not an array throws a TypeError.\<close>

definition as_array :: "json \<Rightarrow> js_error + software list" where
  "as_array v = (case v of JArray xs \<Rightarrow> Inr xs | JOther \<Rightarrow> Inl TypeError)"

section \<open>Multer\<close>

definition fileFilter :: "file_part \<Rightarrow> bool" where
  "fileFilter file = (toLowerCase (extname (originalname file)) = ''.exe'')"

definition storage_filename :: "env \<Rightarrow> file_part \<Rightarrow> string" where
  "storage_filename e file = file_uuid e @ extname (originalname file)"

definition fileSize_limit :: nat where
  "fileSize_limit = 1024 * 1024 * 200"

datatype multer_outcome =
    MulterError string
  | OtherError string
  | Parsed "multer_file option"

text \<open>
  \<^verbatim>\<open>upload.single('softwareFile')\<close>: multer accepts one file part, and only under the
  field \<open>softwareFile\<close>. The parts are taken in the order of the form; \<open>stored\<close> is the
  part accepted so far. A part under another field name, or a second part, ends the parsing
  with the MulterError "Unexpected field". An expected part goes through the filter and is
  then streamed into the upload directory under the generated name; a part the filter
  rejects is never stored.
\<close>

fun multer_parts :: "env \<Rightarrow> (string \<times> file_part) list \<Rightarrow> multer_file option \<Rightarrow> multer_outcome" where
  "multer_parts e [] stored = Parsed stored"
| "multer_parts e ((fieldname, part) # rest) stored =
     (if fieldname \<noteq> ''softwareFile'' \<or> stored \<noteq> None then MulterError ''Unexpected field''
      else if \<not> fileFilter part then OtherError ''Only .exe files are allowed!''
      else
        (case store_fault e of
           Some msg \<Rightarrow> OtherError msg
         | None \<Rightarrow>
             if fileSize_limit < byte_count part then MulterError ''File too large''
             else
               multer_parts e rest
                 (Some \<lparr>originalname = originalname part, byte_count = byte_count part,
                        filename = storage_filename e part\<rparr>)))"

text \<open>
  When the parsing fails, multer itself removes what it has written (a truncated file, or a
  file stored before a later part was refused). The model therefore puts a file into the
  upload directory, and a \<open>Store_file\<close> event into the trace, only when multer hands
  the file to the callback.
\<close>

definition upload_single :: "env \<Rightarrow> upload_request \<Rightarrow> world \<Rightarrow> multer_outcome \<times> world" where
  "upload_single e req w =
     (let w1 = log Parse_multipart w in
      case multer_parts e (file_parts req) None of
        Parsed (Some stored) \<Rightarrow>
          (let w2 = log (Store_file (filename stored)) w1
           in (Parsed (Some stored),
               w2\<lparr>uploads_dir := (uploads_dir w2)(filename stored \<mapsto> byte_count stored)\<rparr>))
      | outcome \<Rightarrow> (outcome, w1))"

section \<open>Upload handler\<close>

definition unlink :: "env \<Rightarrow> string \<Rightarrow> world \<Rightarrow> bool \<times> world" where
  "unlink e fn w =
     (let w1 = log (Unlink fn) w in
      if unlink_fault e \<or> uploads_dir w1 fn = None then (False, w1)
      else (True, w1\<lparr>uploads_dir := (uploads_dir w1)(fn := None)\<rparr>))"

text \<open>\<^verbatim>\<open>try { await fs.unlink(req.file.path) } catch (unlinkErr) { console.error(...) }\<close>\<close>

definition try_unlink :: "env \<Rightarrow> string \<Rightarrow> string \<Rightarrow> world \<Rightarrow> world" where
  "try_unlink e fn msg w =
     (case unlink e fn w of
        (True, w1) \<Rightarrow> w1
      | (False, w1) \<Rightarrow> log (Console_error msg) w1)"

text \<open>The body of the \<^verbatim>\<open>try\<close> block that builds and saves the record.\<close>

definition save_record ::
  "env \<Rightarrow> upload_request \<Rightarrow> multer_file \<Rightarrow> string \<Rightarrow> world \<Rightarrow> (js_error + software) \<times> world" where
  "save_record e req file softwareName' w =
     (case readMetadata e w of
        (Inl err, w1) \<Rightarrow> (Inl err, w1)
      | (Inr v, w1) \<Rightarrow>
          (let newSoftware =
                 \<lparr>id' = record_uuid e,
                  name = softwareName',
                  version = or_empty (softwareVersion req),
                  description = or_empty (softwareDescription req),
                  originalFilename = originalname file,
                  serverFilename = filename file,
                  uploadedAt = now e,
                  size' = byte_count file\<rparr>
           in case as_array v of
                Inl err \<Rightarrow> (Inl err, w1)
              | Inr metadata \<Rightarrow>
                  (case writeMetadata e (metadata @ [newSoftware]) w1 of
                     (Inl err, w2) \<Rightarrow> (Inl err, w2)
                   | (Inr u, w2) \<Rightarrow> (Inr newSoftware, w2))))"

text \<open>The callback that \<^verbatim>\<open>upload.single\<close> calls when the form has been parsed.\<close>

definition upload_callback ::
  "env \<Rightarrow> upload_request \<Rightarrow> multer_outcome \<Rightarrow> world \<Rightarrow> response \<times> world" where
  "upload_callback e req outcome w =
     (case outcome of
        MulterError msg \<Rightarrow>
          (Response 400 (Message (''File upload error: '' @ msg)), log (Console_error ''Multer error:'') w)
      | OtherError msg \<Rightarrow>
          (Response 400 (Message (if msg = [] then ''Unknown upload error'' else msg)),
           log (Console_error ''Unknown upload error:'') w)
      | Parsed None \<Rightarrow> (Response 400 (Message ''No file uploaded.''), w)
      | Parsed (Some file) \<Rightarrow>
          if falsy (softwareName req) then
            (Response 400 (Message ''Software name is required.''),
             try_unlink e (filename file) ''Error deleting orphaned file:'' w)
          else
            (case save_record e req file (or_empty (softwareName req)) w of
               (Inr newSoftware, w1) \<Rightarrow>
                 (Response 201 (Created ''Software uploaded successfully!'' newSoftware), w1)
             | (Inl error, w1) \<Rightarrow>
                 (Response 500 (Message ''Error saving software metadata.''),
                  try_unlink e (filename file) ''Error deleting file after metadata failure:''
                    (log (Console_error ''Error saving metadata:'') w1))))"

definition upload_handler ::
  "string option \<Rightarrow> env \<Rightarrow> upload_request \<Rightarrow> world \<Rightarrow> response \<times> world" where
  "upload_handler MY_SECRET_UPLOAD_TOKEN e req w =
     (let providedToken = x_upload_token req in
      if falsy MY_SECRET_UPLOAD_TOKEN then
        (Response 500 (Message ''Server configuration error regarding upload token.''),
         log (Console_error ''UPLOAD_TOKEN ist serverseitig nicht konfiguriert. Upload abgelehnt.'') w)
      else if providedToken \<noteq> MY_SECRET_UPLOAD_TOKEN then
        (Response 401 (Message ''Unauthorized: Invalid or missing upload token.''),
         log (Console_warn ''Unauthorized upload attempt: Invalid or missing token.'') w)
      else
        (case upload_single e req w of (outcome, w1) \<Rightarrow> upload_callback e req outcome w1))"

section \<open>Listing handler\<close>

text \<open>
  \<^verbatim>\<open>metadata.sort((a, b) => new Date(b.uploadedAt) - new Date(a.uploadedAt))\<close>: a stable sort
  that puts the later instant first.
\<close>

definition sort_newest_first :: "software list \<Rightarrow> software list" where
  "sort_newest_first metadata = sort_key (\<lambda>s. - uploadedAt s) metadata"

definition list_handler :: "env \<Rightarrow> world \<Rightarrow> response \<times> world" where
  "list_handler e w =
     (case readMetadata e w of
        (Inl error, w1) \<Rightarrow> (Response 500 (Message ''Error fetching software list.''), w1)
      | (Inr v, w1) \<Rightarrow>
          (case as_array v of
             Inl error \<Rightarrow> (Response 500 (Message ''Error fetching software list.''), w1)
           | Inr metadata \<Rightarrow> (Response 200 (Listing (sort_newest_first metadata)), w1)))"

section \<open>Download handler\<close>

text \<open>
  \<^verbatim>\<open>fs.access(path.join(UPLOADS_DIR, serverFilename))\<close> for a name without separator: the
  name \<open>.\<close> resolves to the upload directory itself, every other name to its entry.
\<close>

definition access :: "env \<Rightarrow> string \<Rightarrow> world \<Rightarrow> bool \<times> world" where
  "access e fn w =
     (let w1 = log (Access fn) w in
      (\<not> access_fault e \<and> (fn = ''.'' \<or> uploads_dir w1 fn \<noteq> None), w1))"

text \<open>
  \<^verbatim>\<open>res.download\<close> with its callback: a failure before the headers went out is answered
  with 404, a later one only logged. A directory cannot be sent.
\<close>

definition download_file :: "env \<Rightarrow> string \<Rightarrow> string \<Rightarrow> world \<Rightarrow> response \<times> world" where
  "download_file e fn originalFilename' w =
     (let w1 = log (Send_file fn) w;
          outcome = (if fn = ''.'' then Send_failed_early else send e)
      in case outcome of
           Sent \<Rightarrow> (Response 200 (File fn originalFilename'), w1)
         | Send_failed_early \<Rightarrow>
             (Response 404 (Text ''File not found or error during download.''),
              log (Console_error ''Error during download:'') w1)
         | Send_failed_late \<Rightarrow>
             (Response 200 (File fn originalFilename'), log (Console_error ''Error during download:'') w1))"

definition download_handler :: "env \<Rightarrow> string \<Rightarrow> world \<Rightarrow> response \<times> world" where
  "download_handler e requested w =
     (if includes_js requested ''..'' \<or> includes_js requested ''/'' then
        (Response 400 (Text ''Invalid filename.''), w)
      else
        (case access e requested w of
           (False, w1) \<Rightarrow>
             (Response 404 (Text ''File not found.''), log (Console_error ''File access error:'') w1)
         | (True, w1) \<Rightarrow>
             (case readMetadata e w1 of
                (Inl error, w2) \<Rightarrow>
                  (Response 404 (Text ''File not found.''), log (Console_error ''File access error:'') w2)
              | (Inr v, w2) \<Rightarrow>
                  (case as_array v of
                     Inl error \<Rightarrow>
                       (Response 404 (Text ''File not found.''),
                        log (Console_error ''File access error:'') w2)
                   | Inr metadata \<Rightarrow>
                       (let softwareInfo = find (\<lambda>s. serverFilename s = requested) metadata;
                            originalFilename' =
                              (case softwareInfo of
                                 Some s \<Rightarrow> originalFilename s
                               | None \<Rightarrow> requested)
                        in download_file e requested originalFilename' w2)))))"

section \<open>Sequences of uploads\<close>

text \<open>
  Uploads served one after the other: each request is answered before the next one is
  taken up.
\<close>

fun run_uploads ::
  "string option \<Rightarrow> (env \<times> upload_request) list \<Rightarrow> world \<Rightarrow> response list \<times> world" where
  "run_uploads tok [] w = ([], w)"
| "run_uploads tok ((e, req) # rest) w =
     (case upload_handler tok e req w of
        (r, w1) \<Rightarrow> (case run_uploads tok rest w1 of (rs, w2) \<Rightarrow> (r # rs, w2)))"

section \<open>Overlapping uploads\<close>

text \<open>
  The callback is an \<^verbatim>\<open>async\<close> function: at \<^verbatim>\<open>await readMetadata()\<close> and at
  \<^verbatim>\<open>await writeMetadata(metadata)\<close> it is suspended and other requests run. The handler
  is therefore split at the first of these points. \<open>upload_start\<close> runs a request until
  it is answered or until it is about to read the metadata store, with the stored file in
  hand.
\<close>

datatype upload_state = Answered response | Suspended multer_file

definition answered :: "response \<times> world \<Rightarrow> upload_state \<times> world" where
  "answered rw = (Answered (fst rw), snd rw)"

definition upload_start ::
  "string option \<Rightarrow> env \<Rightarrow> upload_request \<Rightarrow> world \<Rightarrow> upload_state \<times> world" where
  "upload_start MY_SECRET_UPLOAD_TOKEN e req w =
     (if falsy MY_SECRET_UPLOAD_TOKEN \<or> x_upload_token req \<noteq> MY_SECRET_UPLOAD_TOKEN
      then answered (upload_handler MY_SECRET_UPLOAD_TOKEN e req w)
      else
        (case upload_single e req w of
           (Parsed (Some file), w1) \<Rightarrow>
             if falsy (softwareName req) then answered (upload_callback e req (Parsed (Some file)) w1)
             else (Suspended file, w1)
         | (outcome, w1) \<Rightarrow> answered (upload_callback e req outcome w1)))"

text \<open>
  \<open>upload_resume\<close> is the rest of the callback, from the result \<open>read\<close> of
  \<^verbatim>\<open>readMetadata()\<close> on: the record is built and pushed, the metadata written, and the
  request answered, or the \<^verbatim>\<open>catch\<close> block cleans up.
\<close>

definition upload_resume ::
  "env \<Rightarrow> upload_request \<Rightarrow> multer_file \<Rightarrow> js_error + json \<Rightarrow> world \<Rightarrow> response \<times> world" where
  "upload_resume e req file read w =
     (let saved =
        (case read of
           Inl err \<Rightarrow> (Inl err, w)
         | Inr v \<Rightarrow>
             (let newSoftware =
                    \<lparr>id' = record_uuid e,
                     name = or_empty (softwareName req),
                     version = or_empty (softwareVersion req),
                     description = or_empty (softwareDescription req),
                     originalFilename = originalname file,
                     serverFilename = filename file,
                     uploadedAt = now e,
                     size' = byte_count file\<rparr>
              in case as_array v of
                   Inl err \<Rightarrow> (Inl err, w)
                 | Inr metadata \<Rightarrow>
                     (case writeMetadata e (metadata @ [newSoftware]) w of
                        (Inl err, w2) \<Rightarrow> (Inl err, w2)
                      | (Inr u, w2) \<Rightarrow> (Inr newSoftware, w2))))
      in case saved of
           (Inr newSoftware, w1) \<Rightarrow>
             (Response 201 (Created ''Software uploaded successfully!'' newSoftware), w1)
         | (Inl error, w1) \<Rightarrow>
             (Response 500 (Message ''Error saving software metadata.''),
              try_unlink e (filename file) ''Error deleting file after metadata failure:''
                (log (Console_error ''Error saving metadata:'') w1)))"

text \<open>
  Two uploads A and B that overlap at the metadata store: both forms are parsed, both
  callbacks read the store, and only then A, and after it B, goes on to write and to answer.
  The result is \<open>None\<close> when one of the two is answered before it reaches the store.
\<close>

definition overlapped_uploads ::
  "string option \<Rightarrow> env \<Rightarrow> upload_request \<Rightarrow> env \<Rightarrow> upload_request \<Rightarrow> world \<Rightarrow>
   (response \<times> response \<times> world) option" where
  "overlapped_uploads tok eA reqA eB reqB w =
     (case upload_start tok eA reqA w of
        (Suspended fileA, w1) \<Rightarrow>
          (case upload_start tok eB reqB w1 of
             (Suspended fileB, w2) \<Rightarrow>
               (case readMetadata eA w2 of
                  (readA, w3) \<Rightarrow>
                    (case readMetadata eB w3 of
                       (readB, w4) \<Rightarrow>
                         (case upload_resume eA reqA fileA readA w4 of
                            (rA, w5) \<Rightarrow>
                              (case upload_resume eB reqB fileB readB w5 of
                                 (rB, w6) \<Rightarrow> Some (rA, rB, w6)))))
           | (Answered r, w2) \<Rightarrow> None)
      | (Answered r, w1) \<Rightarrow> None)"

section \<open>Vocabulary of the properties\<close>

text \<open>The events a handler added to the trace.\<close>

definition new_events :: "world \<Rightarrow> world \<Rightarrow> event list" where
  "new_events w w' = drop (length (events w)) (events w')"

definition is_console :: "event \<Rightarrow> bool" where
  "is_console ev = (case ev of Console_error m \<Rightarrow> True | Console_warn m \<Rightarrow> True | _ \<Rightarrow> False)"

text \<open>
  The metadata store cannot be read as a list of records: the read fails for a reason other
  than a missing file, the text does not parse, or the value is not an array.
\<close>

definition store_broken :: "env \<Rightarrow> world \<Rightarrow> bool" where
  "store_broken e w =
     (read_fault e \<or>
      (case metadata_file w of
         None \<Rightarrow> False
       | Some Unparsable \<Rightarrow> True
       | Some (Json JOther) \<Rightarrow> True
       | Some (Json (JArray xs)) \<Rightarrow> False))"

text \<open>The records of the store, where it can be read (none when the file is missing).\<close>

definition stored_records :: "world \<Rightarrow> software list" where
  "stored_records w =
     (case metadata_file w of
        Some (Json (JArray xs)) \<Rightarrow> xs
      | _ \<Rightarrow> [])"

text \<open>
  The request passes both token checks, its form has exactly one file part, under the field
  \<open>softwareFile\<close>, the filter accepts the part and the disk storage writes it
  completely: \<open>stored_part\<close> is that part.
\<close>

definition authorized :: "string option \<Rightarrow> upload_request \<Rightarrow> bool" where
  "authorized tok req = (\<not> falsy tok \<and> x_upload_token req = tok)"

definition stored_part :: "string option \<Rightarrow> env \<Rightarrow> upload_request \<Rightarrow> file_part option" where
  "stored_part tok e req =
     (case file_parts req of
        [(fieldname, part)] \<Rightarrow>
          if authorized tok req \<and> fieldname = ''softwareFile'' \<and> fileFilter part \<and>
             store_fault e = None \<and> byte_count part \<le> fileSize_limit
          then Some part else None
      | _ \<Rightarrow> None)"

text \<open>The record that the handler builds for a stored file part.\<close>

definition new_record :: "env \<Rightarrow> upload_request \<Rightarrow> file_part \<Rightarrow> software" where
  "new_record e req file =
     \<lparr>id' = record_uuid e,
      name = or_empty (softwareName req),
      version = or_empty (softwareVersion req),
      description = or_empty (softwareDescription req),
      originalFilename = originalname file,
      serverFilename = storage_filename e file,
      uploadedAt = now e,
      size' = byte_count file\<rparr>"

text \<open>
  The text form of a version-4 UUID as \<^verbatim>\<open>uuidv4()\<close> prints it: groups of 8, 4, 4, 4 and
  12 lower-case hexadecimal digits, joined by hyphens.
\<close>

definition hex_digit :: "char \<Rightarrow> bool" where
  "hex_digit c = (c \<in> set ''0123456789abcdef'')"

definition uuid_shape :: "char \<Rightarrow> char" where
  "uuid_shape c = (if c = CHR ''-'' then CHR ''-'' else if hex_digit c then CHR ''x'' else CHR ''?'')"

definition is_uuid :: "string \<Rightarrow> bool" where
  "is_uuid u = (map uuid_shape u = ''xxxxxxxx-xxxx-xxxx-xxxx-xxxxxxxxxxxx'')"

text \<open>A list of records runs from the latest upload to the earliest.\<close>

definition newest_first :: "software list \<Rightarrow> bool" where
  "newest_first xs = sorted_wrt (\<lambda>a b. uploadedAt b \<le> uploadedAt a) xs"

section \<open>Sample inputs\<close>

definition w0 :: world where
  "w0 = \<lparr>uploads_dir = Map.empty, metadata_file = Some (Json (JArray [])), events = []\<rparr>"

definition e0 :: env where
  "e0 = \<lparr>file_uuid = ''9b1deb4d-3b7d-4bad-9bdd-2b0d7b3dcb6d'',
          record_uuid = ''1b9d6bcd-bbfd-4b2d-9b5d-ab8dfbbd4bed'',
          now = 1700000000000,
          store_fault = None, read_fault = False, write_fault = False, unlink_fault = False,
          access_fault = False, send = Sent\<rparr>"

definition e_later :: env where
  "e_later = e0\<lparr>file_uuid := ''6ec0bd7f-11c0-43da-975e-2a8ad9ebae0b'',
                 record_uuid := ''109156be-c4fb-41ea-b1b4-efe1671c5836'',
                 now := 1700000005000\<rparr>"

definition setup_exe :: file_part where
  "setup_exe = \<lparr>originalname = ''Setup.EXE'', byte_count = 1000\<rparr>"

definition req0 :: upload_request where
  "req0 = \<lparr>x_upload_token = Some ''s3cret'',
            file_parts = [(''softwareFile'', setup_exe)],
            softwareName = Some ''App'',
            softwareVersion = Some ''1.0'',
            softwareDescription = None\<rparr>"

definition payload_zip :: file_part where
  "payload_zip = \<lparr>originalname = ''payload.zip'', byte_count = 10\<rparr>"

definition later_record :: software where
  "later_record =
     \<lparr>id' = ''109156be-c4fb-41ea-b1b4-efe1671c5836'',
      name = ''App'',
      version = ''1.0'',
      description = [],
      originalFilename = ''Setup.EXE'',
      serverFilename = ''6ec0bd7f-11c0-43da-975e-2a8ad9ebae0b.EXE'',
      uploadedAt = 1700000005000,
      size' = 1000\<rparr>"

definition app_record :: software where
  "app_record =
     \<lparr>id' = ''1b9d6bcd-bbfd-4b2d-9b5d-ab8dfbbd4bed'',
      name = ''App'',
      version = ''1.0'',
      description = [],
      originalFilename = ''Setup.EXE'',
      serverFilename = ''9b1deb4d-3b7d-4bad-9bdd-2b0d7b3dcb6d.EXE'',
      uploadedAt = 1700000000000,
      size' = 1000\<rparr>"

text \<open>The world after \<open>req0\<close> has been served in \<open>w0\<close>, with an empty trace.\<close>

definition w1 :: world where
  "w1 = \<lparr>uploads_dir = [''9b1deb4d-3b7d-4bad-9bdd-2b0d7b3dcb6d.EXE'' \<mapsto> 1000],
          metadata_file = Some (Json (JArray [app_record])),
          events = []\<rparr>"

section \<open>Basic facts\<close>

lemmas store_defs = readMetadata_def writeMetadata_def readFile_def JSON_parse_def error_code_def
  as_array_def log_def

lemmas upload_defs = upload_handler_def upload_single_def upload_callback_def save_record_def
  try_unlink_def unlink_def

lemma includes_slash: "includes_js s ''/'' = (CHR ''/'' \<in> set s)"
  by (induction s) auto

lemma new_events_append [simp]: "events w' = events w @ evs \<Longrightarrow> new_events w w' = evs"
  by (simp add: new_events_def)

text \<open>The examples of Node's documentation of \<^verbatim>\<open>path.extname\<close>, and some edge cases.\<close>

lemma extname_examples:
  "extname ''index.html'' = ''.html''"
  "extname ''index.coffee.md'' = ''.md''"
  "extname ''index.'' = ''.''"
  "extname ''index'' = []"
  "extname ''.index'' = []"
  "extname ''.index.md'' = ''.md''"
  "extname ''..'' = []"
  "extname ''dir.d/setup.exe/'' = ''.exe''"
  by code_simp+

lemma extname_setup: "extname ''Setup.EXE'' = ''.EXE''"
  by code_simp

lemma extname_payload: "extname ''payload.zip'' = ''.zip''"
  by code_simp

lemma fileFilter_setup: "fileFilter setup_exe"
  by (simp add: fileFilter_def setup_exe_def extname_setup toLowerCase_def lower_char_def)

lemma e0_simps:
  "file_uuid e0 = ''9b1deb4d-3b7d-4bad-9bdd-2b0d7b3dcb6d''"
  "record_uuid e0 = ''1b9d6bcd-bbfd-4b2d-9b5d-ab8dfbbd4bed''"
  "now e0 = 1700000000000"
  "store_fault e0 = None" "\<not> read_fault e0" "\<not> write_fault e0" "\<not> unlink_fault e0"
  "\<not> access_fault e0" "send e0 = Sent"
  by (simp_all add: e0_def)

lemma w0_simps:
  "uploads_dir w0 = Map.empty" "metadata_file w0 = Some (Json (JArray []))" "events w0 = []"
  by (simp_all add: w0_def)

lemma req0_simps:
  "x_upload_token req0 = Some ''s3cret''" "file_parts req0 = [(''softwareFile'', setup_exe)]"
  "softwareName req0 = Some ''App''" "softwareVersion req0 = Some ''1.0''"
  "softwareDescription req0 = None"
  by (simp_all add: req0_def)

lemma stored_part_req0:
  "store_fault e = None \<Longrightarrow> stored_part (Some ''s3cret'') e req0 = Some setup_exe"
  by (simp add: stored_part_def authorized_def falsy_def req0_def
      fileFilter_setup [unfolded setup_exe_def] fileSize_limit_def setup_exe_def)

lemma storage_filename_setup:
  "file_uuid e = file_uuid e0 \<Longrightarrow>
   storage_filename e setup_exe = ''9b1deb4d-3b7d-4bad-9bdd-2b0d7b3dcb6d.EXE''"
  by (simp add: storage_filename_def e0_def setup_exe_def extname_setup)

subsection \<open>The trace only grows\<close>

lemma upload_callback_events:
  "\<exists>evs. events (snd (upload_callback e req out w)) = events w @ evs"
  by (auto simp: upload_defs store_defs Let_def
      split: multer_outcome.splits option.splits sum.splits prod.splits metadata_content.splits
        json.splits if_splits)

lemma upload_single_events:
  "\<exists>evs. events (snd (upload_single e req w)) = events w @ Parse_multipart # evs"
  by (auto simp: upload_single_def log_def Let_def split: multer_outcome.splits option.splits)

lemma upload_accepted_events:
  assumes "authorized tok req"
  shows "\<exists>evs. events (snd (upload_handler tok e req w)) = events w @ Parse_multipart # evs"
proof -
  obtain out w1 where s: "upload_single e req w = (out, w1)"
    by (cases "upload_single e req w")
  from upload_single_events [of e req w] s
  obtain evs where 1: "events w1 = events w @ Parse_multipart # evs" by auto
  from upload_callback_events [of e req out w1]
  obtain evs' where 2: "events (snd (upload_callback e req out w1)) = events w1 @ evs'" by auto
  from assms s have "upload_handler tok e req w = upload_callback e req out w1"
    by (simp add: upload_handler_def authorized_def)
  with 1 2 show ?thesis by simp
qed

subsection \<open>Reading the store\<close>

lemma readMetadata_ok:
  assumes "\<not> store_broken e w"
  shows "readMetadata e w =
           (Inr (JArray (stored_records w)),
            w\<lparr>events := events w @ Read_metadata #
                 (if metadata_file w = None then [Console_error ''Error reading metadata:''] else [])\<rparr>)"
  using assms
  by (auto simp: store_broken_def stored_records_def store_defs Let_def
      split: option.splits metadata_content.splits json.splits)

lemma readMetadata_broken:
  assumes "store_broken e w"
  shows "(\<exists>err. readMetadata e w =
            (Inl err, w\<lparr>events := events w @
               [Read_metadata, Console_error ''Error reading metadata:'']\<rparr>)) \<or>
         readMetadata e w = (Inr JOther, w\<lparr>events := events w @ [Read_metadata]\<rparr>)"
  using assms
  by (auto simp: store_broken_def store_defs Let_def
      split: option.splits metadata_content.splits json.splits)

subsection \<open>A stored file part\<close>

text \<open>After an accepted part, multer takes no further part.\<close>

lemma multer_parts_after:
  "multer_parts e rest (Some s) =
     (if rest = [] then Parsed (Some s) else MulterError ''Unexpected field'')"
  by (cases rest) auto

lemma multer_parts_stored:
  assumes "stored_part tok e req = Some part"
  shows "multer_parts e (file_parts req) None =
           Parsed (Some \<lparr>originalname = originalname part, byte_count = byte_count part,
                          filename = storage_filename e part\<rparr>)"
  using assms
  by (auto simp: stored_part_def split: list.splits prod.splits if_splits)

lemma multer_parts_not_stored:
  assumes "authorized tok req" and "stored_part tok e req = None"
  shows "multer_parts e (file_parts req) None \<noteq> Parsed (Some f)"
proof (cases "file_parts req")
  case Nil
  then show ?thesis by simp
next
  case (Cons a rest)
  obtain fieldname part where a: "a = (fieldname, part)" by (cases a)
  show ?thesis
  proof (cases "rest = []")
    case True
    with assms Cons a show ?thesis
      by (auto simp: stored_part_def split: option.splits if_splits)
  next
    case False
    with Cons a show ?thesis
      by (auto simp: multer_parts_after split: option.splits)
  qed
qed

text \<open>When a file part is stored, the handler continues with the callback on the stored file.\<close>

lemma upload_stored:
  assumes "stored_part tok e req = Some part"
  shows "upload_handler tok e req w =
           upload_callback e req
             (Parsed (Some \<lparr>originalname = originalname part, byte_count = byte_count part,
                            filename = storage_filename e part\<rparr>))
             (w\<lparr>events := events w @ [Parse_multipart, Store_file (storage_filename e part)],
                uploads_dir := (uploads_dir w)(storage_filename e part \<mapsto> byte_count part)\<rparr>)"
proof -
  from assms have "authorized tok req"
    by (auto simp: stored_part_def split: list.splits prod.splits if_splits)
  then show ?thesis
    by (simp add: authorized_def upload_handler_def upload_single_def
        multer_parts_stored [OF assms] log_def Let_def)
qed

lemma store_broken_upd [simp]:
  "store_broken e (w\<lparr>events := evs\<rparr>) = store_broken e w"
  "store_broken e (w\<lparr>uploads_dir := u\<rparr>) = store_broken e w"
  "stored_records (w\<lparr>events := evs\<rparr>) = stored_records w"
  "stored_records (w\<lparr>uploads_dir := u\<rparr>) = stored_records w"
  by (simp_all add: store_broken_def stored_records_def)

text \<open>The four ways the callback ends for a stored file part.\<close>

lemma upload_name_missing:
  assumes "stored_part tok e req = Some file"
    and "falsy (softwareName req)"
  shows "upload_handler tok e req w =
           (Response 400 (Message ''Software name is required.''),
            w\<lparr>events := events w @
                 [Parse_multipart, Store_file (storage_filename e file),
                  Unlink (storage_filename e file)] @
                 (if unlink_fault e then [Console_error ''Error deleting orphaned file:''] else []),
               uploads_dir :=
                 (if unlink_fault e
                  then (uploads_dir w)(storage_filename e file \<mapsto> byte_count file)
                  else (uploads_dir w)(storage_filename e file := None))\<rparr>)"
  using assms(2)
  by (simp add: upload_stored [OF assms(1)] upload_callback_def try_unlink_def unlink_def log_def
      Let_def)

lemma upload_saved:
  assumes "stored_part tok e req = Some file"
    and "\<not> falsy (softwareName req)"
    and "\<not> store_broken e w"
    and "\<not> write_fault e"
  shows "upload_handler tok e req w =
           (Response 201 (Created ''Software uploaded successfully!'' (new_record e req file)),
            w\<lparr>events := events w @
                 [Parse_multipart, Store_file (storage_filename e file), Read_metadata] @
                 (if metadata_file w = None then [Console_error ''Error reading metadata:''] else []) @
                 [Write_metadata],
               uploads_dir := (uploads_dir w)(storage_filename e file \<mapsto> byte_count file),
               metadata_file := Some (Json (JArray (stored_records w @ [new_record e req file])))\<rparr>)"
  using assms(2-)
  by (simp add: upload_stored [OF assms(1)] upload_callback_def save_record_def
        readMetadata_ok as_array_def writeMetadata_def log_def new_record_def Let_def)

lemma upload_write_failed:
  assumes "stored_part tok e req = Some file"
    and "\<not> falsy (softwareName req)"
    and "\<not> store_broken e w"
    and "write_fault e"
  shows "upload_handler tok e req w =
           (Response 500 (Message ''Error saving software metadata.''),
            w\<lparr>events := events w @
                 [Parse_multipart, Store_file (storage_filename e file), Read_metadata] @
                 (if metadata_file w = None then [Console_error ''Error reading metadata:''] else []) @
                 [Write_metadata, Console_error ''Error writing metadata:'',
                  Console_error ''Error saving metadata:'', Unlink (storage_filename e file)] @
                 (if unlink_fault e
                  then [Console_error ''Error deleting file after metadata failure:''] else []),
               uploads_dir :=
                 (if unlink_fault e
                  then (uploads_dir w)(storage_filename e file \<mapsto> byte_count file)
                  else (uploads_dir w)(storage_filename e file := None))\<rparr>)"
  using assms(2-)
  by (simp add: upload_stored [OF assms(1)] upload_callback_def save_record_def
        readMetadata_ok as_array_def writeMetadata_def try_unlink_def unlink_def log_def Let_def)

lemma upload_read_failed:
  assumes "stored_part tok e req = Some file"
    and "\<not> falsy (softwareName req)"
    and "store_broken e w"
  shows "fst (upload_handler tok e req w) = Response 500 (Message ''Error saving software metadata.'') \<and>
         metadata_file (snd (upload_handler tok e req w)) = metadata_file w \<and>
         Unlink (storage_filename e file) \<in> set (new_events w (snd (upload_handler tok e req w)))"
proof -
  let ?w1 = "w\<lparr>events := events w @ [Parse_multipart, Store_file (storage_filename e file)],
                uploads_dir := (uploads_dir w)(storage_filename e file \<mapsto> byte_count file)\<rparr>"
  from assms(3) have "store_broken e ?w1" by simp
  from readMetadata_broken [OF this] show ?thesis
    using assms(2)
    by (auto simp: upload_stored [OF assms(1)] upload_callback_def save_record_def
        as_array_def try_unlink_def unlink_def log_def Let_def)
qed

lemma upload_not_stored:
  assumes "stored_part tok e req = None"
  shows "status (fst (upload_handler tok e req w)) \<in> {400, 401, 500} \<and>
         metadata_file (snd (upload_handler tok e req w)) = metadata_file w \<and>
         uploads_dir (snd (upload_handler tok e req w)) = uploads_dir w \<and>
         list_all (\<lambda>ev. ev = Parse_multipart \<or> is_console ev)
           (new_events w (snd (upload_handler tok e req w)))"
proof (cases "authorized tok req")
  case False
  then show ?thesis
    by (auto simp: authorized_def upload_handler_def log_def is_console_def Let_def)
next
  case True
  from multer_parts_not_stored [OF True assms]
  have "\<forall>f. multer_parts e (file_parts req) None \<noteq> Parsed (Some f)" by simp
  with True show ?thesis
    by (auto simp: authorized_def upload_handler_def upload_single_def upload_callback_def
        log_def is_console_def Let_def split: multer_outcome.splits option.splits)
qed

text \<open>The handler is \<open>upload_start\<close>, the read of the store, and \<open>upload_resume\<close>.\<close>

lemma upload_handler_split:
  "upload_handler tok e req w =
     (case upload_start tok e req w of
        (Answered r, wa) \<Rightarrow> (r, wa)
      | (Suspended part, wa) \<Rightarrow>
          (case readMetadata e wa of (read, wb) \<Rightarrow> upload_resume e req part read wb))"
  by (auto simp: upload_start_def answered_def upload_handler_def upload_callback_def
      save_record_def upload_resume_def Let_def
      split: prod.splits multer_outcome.splits option.splits sum.splits)

lemma w1_simps:
  "uploads_dir w1 = [''9b1deb4d-3b7d-4bad-9bdd-2b0d7b3dcb6d.EXE'' \<mapsto> 1000]"
  "metadata_file w1 = Some (Json (JArray [app_record]))" "events w1 = []"
  by (simp_all add: w1_def)

subsection \<open>Listing and download\<close>

lemma list_ok:
  assumes "\<not> store_broken e w"
  shows "list_handler e w =
           (Response 200 (Listing (sort_newest_first (stored_records w))),
            w\<lparr>events := events w @ Read_metadata #
                 (if metadata_file w = None then [Console_error ''Error reading metadata:''] else [])\<rparr>)"
  by (simp add: list_handler_def readMetadata_ok [OF assms] as_array_def)

lemma list_broken:
  assumes "store_broken e w"
  shows "fst (list_handler e w) = Response 500 (Message ''Error fetching software list.'')"
  using readMetadata_broken [OF assms]
  by (auto simp: list_handler_def as_array_def)

lemma list_pure:
  "uploads_dir (snd (list_handler e w)) = uploads_dir w \<and>
   metadata_file (snd (list_handler e w)) = metadata_file w"
proof (cases "store_broken e w")
  case True
  from readMetadata_broken [OF this] show ?thesis
    by (auto simp: list_handler_def as_array_def)
next
  case False
  then show ?thesis by (simp add: list_ok)
qed

lemma newest_first_sort: "newest_first (sort_newest_first xs)"
proof -
  have "sorted (map (\<lambda>s. - uploadedAt s) (sort_key (\<lambda>s. - uploadedAt s) xs))"
    by (rule sorted_sort_key)
  then show ?thesis
    by (simp add: newest_first_def sort_newest_first_def sorted_map)
qed

lemma mset_sort_newest_first: "mset (sort_newest_first xs) = mset xs"
  by (simp add: sort_newest_first_def)

lemma download_access_failed:
  assumes "\<not> includes_js requested ''..''" and "\<not> includes_js requested ''/''"
    and "access_fault e"
  shows "fst (download_handler e requested w) = Response 404 (Text ''File not found.'')"
  using assms by (simp add: download_handler_def access_def log_def Let_def)

lemma download_send_failed:
  assumes "\<not> includes_js requested ''..''" and "\<not> includes_js requested ''/''"
    and "\<not> access_fault e" and "uploads_dir w requested \<noteq> None"
    and "\<not> store_broken e w" and "send e = Send_failed_early"
  shows "fst (download_handler e requested w) =
           Response 404 (Text ''File not found or error during download.'')"
  using assms
  by (auto simp: download_handler_def access_def readMetadata_ok as_array_def
      download_file_def Let_def log_def)

lemma download_status:
  assumes "\<not> includes_js requested ''..''" and "\<not> includes_js requested ''/''"
  shows "status (fst (download_handler e requested w)) \<in> {200, 404}"
  using assms
  by (auto simp: download_handler_def access_def download_file_def Let_def
      split: prod.splits sum.splits send_outcome.splits bool.splits)

subsection \<open>Successful uploads\<close>

lemma upload_created:
  assumes "status (fst (upload_handler tok e req w)) = 201"
  shows "\<exists>file. stored_part tok e req = Some file \<and> \<not> falsy (softwareName req) \<and>
           \<not> store_broken e w \<and> \<not> write_fault e"
proof (cases "stored_part tok e req")
  case None
  from upload_not_stored [OF this, of w] assms show ?thesis by auto
next
  case (Some part)
  have 1: "\<not> falsy (softwareName req)"
    using assms upload_name_missing [OF Some, of w] by auto
  have 2: "\<not> store_broken e w"
    using assms upload_read_failed [OF Some 1, of w] by auto
  have 3: "\<not> write_fault e"
    using assms upload_write_failed [OF Some 1 2] by auto
  from Some 1 2 3 show ?thesis by simp
qed

lemma run_uploads_created:
  assumes "run_uploads tok reqs w = (rs, w')"
    and "list_all (\<lambda>r. status r = 201) rs"
    and "\<not> store_broken e w"
  shows "\<not> store_broken e w' \<and>
         length (stored_records w') = length (stored_records w) + length reqs"
  using assms
proof (induction reqs arbitrary: w rs)
  case Nil
  then show ?case by simp
next
  case (Cons a reqs)
  obtain e1 req1 where a: "a = (e1, req1)" by (cases a)
  obtain r w1 where u: "upload_handler tok e1 req1 w = (r, w1)"
    by (cases "upload_handler tok e1 req1 w")
  obtain rs1 w2 where t: "run_uploads tok reqs w1 = (rs1, w2)"
    by (cases "run_uploads tok reqs w1")
  from Cons.prems(1) a u t have eq: "rs = r # rs1" "w' = w2" by simp_all
  with Cons.prems(2) have r: "status r = 201" and rs1: "list_all (\<lambda>r. status r = 201) rs1"
    by simp_all
  from r u have "status (fst (upload_handler tok e1 req1 w)) = 201" by simp
  from upload_created [OF this] obtain part where
    s: "stored_part tok e1 req1 = Some part" "\<not> falsy (softwareName req1)"
       "\<not> store_broken e1 w" "\<not> write_fault e1" by blast
  from upload_saved [OF s] u
  have m: "metadata_file w1 = Some (Json (JArray (stored_records w @ [new_record e1 req1 part])))"
    by auto
  from Cons.prems(3) have nr: "\<not> read_fault e" by (simp add: store_broken_def)
  from m nr have b1: "\<not> store_broken e w1" by (simp add: store_broken_def)
  from m have l1: "length (stored_records w1) = Suc (length (stored_records w))"
    by (simp add: stored_records_def)
  from t eq have "run_uploads tok reqs w1 = (rs1, w')" by simp
  from Cons.IH [OF this rs1 b1] l1 show ?case by simp
qed

subsection \<open>Generated file names\<close>

lemma includes_dots_append:
  "CHR ''.'' \<notin> set u \<Longrightarrow> includes_js (u @ x) ''..'' = includes_js x ''..''"
  by (induction u) auto

lemma lower_char_dot: "lower_char c = CHR ''.'' \<Longrightarrow> c = CHR ''.''"
  by (auto simp: lower_char_def split: if_splits)

lemma lower_exe:
  assumes "toLowerCase x = ''.exe''"
  shows "CHR ''/'' \<notin> set x \<and> \<not> includes_js x ''..''"
proof -
  from assms obtain a b c d where x: "x = [a, b, c, d]"
    and l: "lower_char a = CHR ''.''" "lower_char b = CHR ''e''" "lower_char c = CHR ''x''"
      "lower_char d = CHR ''e''"
    by (auto simp: toLowerCase_def map_eq_Cons_conv)
  have "lower_char CHR ''/'' = CHR ''/''" "lower_char CHR ''.'' = CHR ''.''"
    by (simp_all add: lower_char_def)
  with l have "a \<noteq> CHR ''/''" "b \<noteq> CHR ''/''" "c \<noteq> CHR ''/''" "d \<noteq> CHR ''/''"
    "b \<noteq> CHR ''.''" "c \<noteq> CHR ''.''" "d \<noteq> CHR ''.''"
    by auto
  with x show ?thesis by simp
qed

lemma uuid_chars:
  assumes "is_uuid u"
  shows "CHR ''.'' \<notin> set u \<and> CHR ''/'' \<notin> set u"
proof -
  have "\<forall>c \<in> set u. uuid_shape c \<in> set (map uuid_shape u)" by simp
  with assms have "\<forall>c \<in> set u. uuid_shape c = CHR ''x'' \<or> uuid_shape c = CHR ''-''"
    unfolding is_uuid_def by auto
  moreover have "uuid_shape CHR ''.'' = CHR ''?''" "uuid_shape CHR ''/'' = CHR ''?''"
    by (simp_all add: uuid_shape_def hex_digit_def)
  ultimately show ?thesis by auto
qed

lemma storage_filename_safe:
  assumes "is_uuid (file_uuid e)" and "fileFilter file"
  shows "\<not> includes_js (storage_filename e file) ''..'' \<and>
         \<not> includes_js (storage_filename e file) ''/''"
  using uuid_chars [OF assms(1)] lower_exe [of "extname (originalname file)"] assms(2)
  by (simp add: storage_filename_def fileFilter_def includes_dots_append includes_slash)

subsection \<open>The sample upload\<close>

lemma setup_exe_simps:
  "originalname setup_exe = ''Setup.EXE''" "byte_count setup_exe = 1000"
  by (simp_all add: setup_exe_def)

lemma new_record_req0: "new_record e0 req0 setup_exe = app_record"
  by (simp add: new_record_def app_record_def storage_filename_setup e0_simps req0_simps
      or_empty_def setup_exe_simps)

lemma upload_req0:
  "upload_handler (Some ''s3cret'') e0 req0 w0 =
     (Response 201 (Created ''Software uploaded successfully!'' app_record),
      w1\<lparr>events := [Parse_multipart, Store_file ''9b1deb4d-3b7d-4bad-9bdd-2b0d7b3dcb6d.EXE'',
                      Read_metadata, Write_metadata]\<rparr>)"
proof -
  have sp: "stored_part (Some ''s3cret'') e0 req0 = Some setup_exe"
    by (rule stored_part_req0) (simp add: e0_simps)
  have nf: "\<not> falsy (softwareName req0)" by (simp add: falsy_def req0_simps)
  have nb: "\<not> store_broken e0 w0" by (simp add: store_broken_def e0_simps w0_simps)
  have nw: "\<not> write_fault e0" by (simp add: e0_simps)
  show ?thesis
    unfolding upload_saved [OF sp nf nb nw]
    by (simp add: new_record_req0 storage_filename_setup stored_records_def w0_def w1_def
        setup_exe_simps)
qed

lemma e_later_simps:
  "file_uuid e_later = ''6ec0bd7f-11c0-43da-975e-2a8ad9ebae0b''"
  "record_uuid e_later = ''109156be-c4fb-41ea-b1b4-efe1671c5836''"
  "now e_later = 1700000005000"
  "store_fault e_later = None" "\<not> read_fault e_later" "\<not> write_fault e_later"
  by (simp_all add: e_later_def e0_simps)

lemma upload_later:
  "status (fst (upload_handler (Some ''s3cret'') e_later req0 (w1\<lparr>events := evs\<rparr>))) = 201 \<and>
   \<not> store_broken e0 (snd (upload_handler (Some ''s3cret'') e_later req0 (w1\<lparr>events := evs\<rparr>)))"
proof -
  have sp: "stored_part (Some ''s3cret'') e_later req0 = Some setup_exe"
    by (rule stored_part_req0) (simp add: e_later_simps)
  have nf: "\<not> falsy (softwareName req0)" by (simp add: falsy_def req0_simps)
  have nb: "\<not> store_broken e_later (w1\<lparr>events := evs\<rparr>)"
    by (simp add: store_broken_def e_later_simps w1_simps)
  have nw: "\<not> write_fault e_later" by (simp add: e_later_simps)
  show ?thesis
    by (simp add: upload_saved [OF sp nf nb nw] store_broken_def e0_simps)
qed

section \<open>Token checks\<close>

text \<open>
  C1. An upload whose \<^verbatim>\<open>x-upload-token\<close> differs from the configured secret (a missing
  token included), or that meets a server without a secret, is refused: with 401 when a
  secret is configured and with 500 (a configuration error) when none is, two responses of
  different status. The upload directory and the metadata store stay as they were, and the
  handler adds nothing but console lines to the trace.
\<close>

theorem upload_rejects_bad_token:
  assumes "x_upload_token req \<noteq> tok \<or> falsy tok"
  shows "fst (upload_handler tok e req w) =
           (if falsy tok
            then Response 500 (Message ''Server configuration error regarding upload token.'')
            else Response 401 (Message ''Unauthorized: Invalid or missing upload token.'')) \<and>
         uploads_dir (snd (upload_handler tok e req w)) = uploads_dir w \<and>
         metadata_file (snd (upload_handler tok e req w)) = metadata_file w \<and>
         list_all is_console (new_events w (snd (upload_handler tok e req w))) \<and>
         status (Response 500 (Message ''Server configuration error regarding upload token.'')) \<noteq>
         status (Response 401 (Message ''Unauthorized: Invalid or missing upload token.''))"
  using assms
  by (auto simp: upload_handler_def log_def new_events_def is_console_def Let_def)

theorem upload_rejects_bad_token_witness:
  "x_upload_token (req0\<lparr>x_upload_token := None\<rparr>) \<noteq> Some ''s3cret'' \<and>
   fst (upload_handler (Some ''s3cret'') e0 (req0\<lparr>x_upload_token := None\<rparr>) w0) =
     Response 401 (Message ''Unauthorized: Invalid or missing upload token.'') \<and>
   uploads_dir (snd (upload_handler (Some ''s3cret'') e0 (req0\<lparr>x_upload_token := None\<rparr>) w0)) =
     uploads_dir w0 \<and>
   metadata_file (snd (upload_handler (Some ''s3cret'') e0 (req0\<lparr>x_upload_token := None\<rparr>) w0)) =
     metadata_file w0 \<and>
   falsy None \<and>
   fst (upload_handler None e0 req0 w0) =
     Response 500 (Message ''Server configuration error regarding upload token.'')"
  using upload_rejects_bad_token [of "req0\<lparr>x_upload_token := None\<rparr>" "Some ''s3cret''" e0 w0]
    upload_rejects_bad_token [of req0 None e0 w0]
  by (simp add: req0_def falsy_def)

text \<open>
  C2. The handler first checks that a secret is configured (500 otherwise, whatever the
  caller sent), then that the caller's token equals it (401 otherwise); in both refusals
  the form is never parsed. When both checks pass, parsing the form is the first thing the
  handler does.
\<close>

theorem upload_checks_before_parsing:
  "(falsy tok \<longrightarrow>
      fst (upload_handler tok e req w) =
        Response 500 (Message ''Server configuration error regarding upload token.'') \<and>
      Parse_multipart \<notin> set (new_events w (snd (upload_handler tok e req w)))) \<and>
   (\<not> falsy tok \<and> x_upload_token req \<noteq> tok \<longrightarrow>
      fst (upload_handler tok e req w) =
        Response 401 (Message ''Unauthorized: Invalid or missing upload token.'') \<and>
      Parse_multipart \<notin> set (new_events w (snd (upload_handler tok e req w)))) \<and>
   (\<not> falsy tok \<and> x_upload_token req = tok \<longrightarrow>
      take 1 (new_events w (snd (upload_handler tok e req w))) = [Parse_multipart])"
proof (intro conjI impI)
  assume "\<not> falsy tok \<and> x_upload_token req = tok"
  then have "authorized tok req" by (simp add: authorized_def)
  from upload_accepted_events [OF this, of e w]
  show "take 1 (new_events w (snd (upload_handler tok e req w))) = [Parse_multipart]"
    by auto
qed (auto simp: upload_handler_def log_def new_events_def Let_def)

theorem upload_checks_before_parsing_witness:
  "falsy None \<and>
   fst (upload_handler None e0 req0 w0) =
     Response 500 (Message ''Server configuration error regarding upload token.'') \<and>
   \<not> falsy (Some ''s3cret'') \<and> x_upload_token (req0\<lparr>x_upload_token := Some ''guess''\<rparr>) \<noteq> Some ''s3cret'' \<and>
   fst (upload_handler (Some ''s3cret'') e0 (req0\<lparr>x_upload_token := Some ''guess''\<rparr>) w0) =
     Response 401 (Message ''Unauthorized: Invalid or missing upload token.'') \<and>
   x_upload_token req0 = Some ''s3cret'' \<and>
   take 1 (new_events w0 (snd (upload_handler (Some ''s3cret'') e0 req0 w0))) = [Parse_multipart]"
  using upload_checks_before_parsing [of None e0 req0 w0]
    upload_checks_before_parsing [of "Some ''s3cret''" e0 "req0\<lparr>x_upload_token := Some ''guess''\<rparr>" w0]
    upload_checks_before_parsing [of "Some ''s3cret''" e0 req0 w0]
  by (simp add: req0_def falsy_def)

section \<open>Validation of the upload\<close>

text \<open>
  C6. An upload whose file has an extension other than \<open>.exe\<close>, compared without regard
  to case, leaves the upload directory and the metadata store as they were and is answered
  with an error status. Once the token checks have passed, the error is raised while the
  form is parsed and the answer is 400 with the filter's message.
\<close>

theorem non_exe_rejected:
  assumes "file_parts req = (''softwareFile'', part) # rest"
    and "toLowerCase (extname (originalname part)) \<noteq> ''.exe''"
  shows "uploads_dir (snd (upload_handler tok e req w)) = uploads_dir w \<and>
         metadata_file (snd (upload_handler tok e req w)) = metadata_file w \<and>
         400 \<le> status (fst (upload_handler tok e req w)) \<and>
         (authorized tok req \<longrightarrow>
            fst (upload_single e req w) = OtherError ''Only .exe files are allowed!'' \<and>
            fst (upload_handler tok e req w) =
              Response 400 (Message ''Only .exe files are allowed!'') \<and>
            new_events w (snd (upload_handler tok e req w)) =
              [Parse_multipart, Console_error ''Unknown upload error:''])"
  using assms
  by (auto simp: authorized_def upload_handler_def upload_single_def upload_callback_def
      fileFilter_def log_def Let_def)

theorem non_exe_rejected_witness:
  "file_parts (req0\<lparr>file_parts := [(''softwareFile'', payload_zip)]\<rparr>) =
     (''softwareFile'', payload_zip) # [] \<and>
   toLowerCase (extname (originalname payload_zip)) \<noteq> ''.exe'' \<and>
   authorized (Some ''s3cret'') (req0\<lparr>file_parts := [(''softwareFile'', payload_zip)]\<rparr>) \<and>
   fst (upload_handler (Some ''s3cret'') e0
          (req0\<lparr>file_parts := [(''softwareFile'', payload_zip)]\<rparr>) w0) =
     Response 400 (Message ''Only .exe files are allowed!'') \<and>
   uploads_dir (snd (upload_handler (Some ''s3cret'') e0
          (req0\<lparr>file_parts := [(''softwareFile'', payload_zip)]\<rparr>) w0)) =
     uploads_dir w0 \<and>
   metadata_file (snd (upload_handler (Some ''s3cret'') e0
          (req0\<lparr>file_parts := [(''softwareFile'', payload_zip)]\<rparr>) w0)) =
     metadata_file w0"
  using non_exe_rejected [of "req0\<lparr>file_parts := [(''softwareFile'', payload_zip)]\<rparr>"
      payload_zip "[]" "Some ''s3cret''" e0 w0]
  by (simp add: req0_simps falsy_def authorized_def payload_zip_def extname_payload
      toLowerCase_def lower_char_def)

text \<open>
  C9, as the claim reads, fails for a form whose file sits under another field name: it has
  no file under \<open>softwareFile\<close>, and the answer is multer's "Unexpected field", sent by
  the branch for a MulterError, not "No file uploaded.".
\<close>

theorem upload_without_file_counterexample:
  "authorized (Some ''s3cret'') (req0\<lparr>file_parts := [(''file'', setup_exe)]\<rparr>) \<and>
   ''softwareFile'' \<notin> fst ` set (file_parts (req0\<lparr>file_parts := [(''file'', setup_exe)]\<rparr>)) \<and>
   fst (upload_handler (Some ''s3cret'') e0 (req0\<lparr>file_parts := [(''file'', setup_exe)]\<rparr>) w0) =
     Response 400 (Message ''File upload error: Unexpected field'')"
  by (simp add: authorized_def falsy_def req0_simps upload_handler_def upload_single_def
      upload_callback_def log_def Let_def)

text \<open>
  C9, amended. An upload that passes the token checks and carries no file under
  \<open>softwareFile\<close> is answered with 400 and nothing is stored or recorded: with
  "No file uploaded." when the form has no file part at all, with
  "File upload error: Unexpected field" when it has a file part under another field. The
  answer is the same whatever the name field holds: the file is looked at first.
\<close>

theorem upload_without_file:
  assumes "authorized tok req" and "''softwareFile'' \<notin> fst ` set (file_parts req)"
  shows "fst (upload_handler tok e (req\<lparr>softwareName := n\<rparr>) w) =
           Response 400
             (Message (if file_parts req = [] then ''No file uploaded.''
                       else ''File upload error: Unexpected field'')) \<and>
         metadata_file (snd (upload_handler tok e (req\<lparr>softwareName := n\<rparr>) w)) = metadata_file w \<and>
         uploads_dir (snd (upload_handler tok e (req\<lparr>softwareName := n\<rparr>) w)) = uploads_dir w \<and>
         new_events w (snd (upload_handler tok e (req\<lparr>softwareName := n\<rparr>) w)) =
           Parse_multipart #
           (if file_parts req = [] then [] else [Console_error ''Multer error:''])"
proof (cases "file_parts req")
  case Nil
  with assms(1) show ?thesis
    by (simp add: authorized_def upload_handler_def upload_single_def upload_callback_def
        log_def Let_def)
next
  case (Cons a rest)
  obtain fieldname part where a: "a = (fieldname, part)" by (cases a)
  with Cons assms(2) have "fieldname \<noteq> ''softwareFile''" by auto
  with Cons a assms(1) show ?thesis
    by (simp add: authorized_def upload_handler_def upload_single_def upload_callback_def
        log_def Let_def)
qed

theorem upload_without_file_witness:
  "authorized (Some ''s3cret'') (req0\<lparr>file_parts := []\<rparr>) \<and>
   ''softwareFile'' \<notin> fst ` set (file_parts (req0\<lparr>file_parts := []\<rparr>)) \<and>
   fst (upload_handler (Some ''s3cret'') e0 (req0\<lparr>file_parts := [], softwareName := None\<rparr>) w0) =
     Response 400 (Message ''No file uploaded.'') \<and>
   fst (upload_handler (Some ''s3cret'') e0 (req0\<lparr>file_parts := [], softwareName := Some ''App''\<rparr>) w0) =
     Response 400 (Message ''No file uploaded.'') \<and>
   metadata_file (snd (upload_handler (Some ''s3cret'') e0
      (req0\<lparr>file_parts := [], softwareName := None\<rparr>) w0)) = metadata_file w0 \<and>
   authorized (Some ''s3cret'') (req0\<lparr>file_parts := [(''file'', setup_exe)]\<rparr>) \<and>
   ''softwareFile'' \<notin> fst ` set (file_parts (req0\<lparr>file_parts := [(''file'', setup_exe)]\<rparr>)) \<and>
   fst (upload_handler (Some ''s3cret'') e0
      (req0\<lparr>file_parts := [(''file'', setup_exe)], softwareName := None\<rparr>) w0) =
     Response 400 (Message ''File upload error: Unexpected field'') \<and>
   uploads_dir (snd (upload_handler (Some ''s3cret'') e0
      (req0\<lparr>file_parts := [(''file'', setup_exe)], softwareName := None\<rparr>) w0)) = uploads_dir w0"
  using upload_without_file [of "Some ''s3cret''" "req0\<lparr>file_parts := []\<rparr>" e0 None w0]
    upload_without_file [of "Some ''s3cret''" "req0\<lparr>file_parts := []\<rparr>" e0 "Some ''App''" w0]
    upload_without_file [of "Some ''s3cret''" "req0\<lparr>file_parts := [(''file'', setup_exe)]\<rparr>" e0 None w0]
  by (simp add: req0_simps falsy_def authorized_def)

section \<open>Failure while saving the metadata\<close>

text \<open>
  C4. A file part has been stored, the name is given and the store can be read, but writing
  the metadata fails. The handler then tries to unlink the file it has just stored, after
  the failed write, and answers 500 with a fixed message; the metadata file is what it was.
  When the unlink fails too, that is logged, the answer is the same, and the file stays.
\<close>

theorem metadata_write_failure_cleanup:
  assumes "stored_part tok e req = Some file"
    and "\<not> falsy (softwareName req)"
    and "\<not> store_broken e w"
    and "write_fault e"
  shows "fst (upload_handler tok e req w) = Response 500 (Message ''Error saving software metadata.'') \<and>
         metadata_file (snd (upload_handler tok e req w)) = metadata_file w \<and>
         new_events w (snd (upload_handler tok e req w)) =
           [Parse_multipart, Store_file (storage_filename e file), Read_metadata] @
           (if metadata_file w = None then [Console_error ''Error reading metadata:''] else []) @
           [Write_metadata, Console_error ''Error writing metadata:'',
            Console_error ''Error saving metadata:'', Unlink (storage_filename e file)] @
           (if unlink_fault e then [Console_error ''Error deleting file after metadata failure:'']
            else []) \<and>
         uploads_dir (snd (upload_handler tok e req w)) (storage_filename e file) =
           (if unlink_fault e then Some (byte_count file) else None)"
  by (simp add: upload_write_failed [OF assms])

theorem metadata_write_failure_cleanup_witness:
  "stored_part (Some ''s3cret'') (e0\<lparr>write_fault := True\<rparr>) req0 = Some setup_exe \<and>
   \<not> falsy (softwareName req0) \<and>
   \<not> store_broken (e0\<lparr>write_fault := True\<rparr>) w0 \<and>
   write_fault (e0\<lparr>write_fault := True\<rparr>) \<and>
   fst (upload_handler (Some ''s3cret'') (e0\<lparr>write_fault := True\<rparr>) req0 w0) =
     Response 500 (Message ''Error saving software metadata.'') \<and>
   metadata_file (snd (upload_handler (Some ''s3cret'') (e0\<lparr>write_fault := True\<rparr>) req0 w0)) =
     Some (Json (JArray [])) \<and>
   new_events w0 (snd (upload_handler (Some ''s3cret'') (e0\<lparr>write_fault := True\<rparr>) req0 w0)) =
     [Parse_multipart, Store_file ''9b1deb4d-3b7d-4bad-9bdd-2b0d7b3dcb6d.EXE'', Read_metadata,
      Write_metadata, Console_error ''Error writing metadata:'',
      Console_error ''Error saving metadata:'', Unlink ''9b1deb4d-3b7d-4bad-9bdd-2b0d7b3dcb6d.EXE''] \<and>
   uploads_dir (snd (upload_handler (Some ''s3cret'') (e0\<lparr>write_fault := True\<rparr>) req0 w0))
     ''9b1deb4d-3b7d-4bad-9bdd-2b0d7b3dcb6d.EXE'' = None"
proof -
  have sp: "stored_part (Some ''s3cret'') (e0\<lparr>write_fault := True\<rparr>) req0 = Some setup_exe"
    by (rule stored_part_req0) (simp add: e0_simps)
  have fn: "storage_filename (e0\<lparr>write_fault := True\<rparr>) setup_exe =
      ''9b1deb4d-3b7d-4bad-9bdd-2b0d7b3dcb6d.EXE''"
    by (rule storage_filename_setup) simp
  have nf: "\<not> falsy (softwareName req0)" by (simp add: falsy_def req0_simps)
  have nb: "\<not> store_broken (e0\<lparr>write_fault := True\<rparr>) w0"
    by (simp add: store_broken_def e0_simps w0_simps)
  have wf: "write_fault (e0\<lparr>write_fault := True\<rparr>)" by simp
  from metadata_write_failure_cleanup [OF sp nf nb wf] sp nf nb
  show ?thesis by (simp add: fn w0_simps e0_simps)
qed

section \<open>A missing name\<close>

text \<open>
  C5, as the claim reads, fails at two points. The file that was just stored is not always
  deleted: when the unlink fails, the handler only logs it and the file stays. And the
  missing name is not the only path that removes a stored file before any record exists:
  when the metadata of a named upload cannot be read, the file is stored and unlinked and
  no record is ever built.
\<close>

theorem missing_name_counterexample:
  "falsy (softwareName (req0\<lparr>softwareName := None\<rparr>)) \<and>
   fst (upload_handler (Some ''s3cret'') (e0\<lparr>unlink_fault := True\<rparr>) (req0\<lparr>softwareName := None\<rparr>) w0) =
     Response 400 (Message ''Software name is required.'') \<and>
   uploads_dir (snd (upload_handler (Some ''s3cret'') (e0\<lparr>unlink_fault := True\<rparr>)
       (req0\<lparr>softwareName := None\<rparr>) w0)) ''9b1deb4d-3b7d-4bad-9bdd-2b0d7b3dcb6d.EXE'' = Some 1000 \<and>
   softwareName req0 = Some ''App'' \<and>
   fst (upload_handler (Some ''s3cret'') e0 req0 (w0\<lparr>metadata_file := Some Unparsable\<rparr>)) =
     Response 500 (Message ''Error saving software metadata.'') \<and>
   new_events (w0\<lparr>metadata_file := Some Unparsable\<rparr>)
     (snd (upload_handler (Some ''s3cret'') e0 req0 (w0\<lparr>metadata_file := Some Unparsable\<rparr>))) =
     [Parse_multipart, Store_file ''9b1deb4d-3b7d-4bad-9bdd-2b0d7b3dcb6d.EXE'', Read_metadata,
      Console_error ''Error reading metadata:'', Console_error ''Error saving metadata:'',
      Unlink ''9b1deb4d-3b7d-4bad-9bdd-2b0d7b3dcb6d.EXE''] \<and>
   uploads_dir (snd (upload_handler (Some ''s3cret'') e0 req0 (w0\<lparr>metadata_file := Some Unparsable\<rparr>)))
     ''9b1deb4d-3b7d-4bad-9bdd-2b0d7b3dcb6d.EXE'' = None \<and>
   metadata_file (snd (upload_handler (Some ''s3cret'') e0 req0 (w0\<lparr>metadata_file := Some Unparsable\<rparr>))) =
     Some Unparsable"
proof -
  have sp1: "stored_part (Some ''s3cret'') (e0\<lparr>unlink_fault := True\<rparr>) (req0\<lparr>softwareName := None\<rparr>) =
      Some setup_exe"
    using stored_part_req0 [of e0]
    by (simp add: stored_part_def authorized_def req0_simps e0_simps)
  have nf: "falsy (softwareName (req0\<lparr>softwareName := None\<rparr>))" by (simp add: falsy_def)
  have fn1: "storage_filename (e0\<lparr>unlink_fault := True\<rparr>) setup_exe =
      ''9b1deb4d-3b7d-4bad-9bdd-2b0d7b3dcb6d.EXE''"
    by (rule storage_filename_setup) simp
  have A: "upload_handler (Some ''s3cret'') (e0\<lparr>unlink_fault := True\<rparr>) (req0\<lparr>softwareName := None\<rparr>) w0 =
     (Response 400 (Message ''Software name is required.''),
      w0\<lparr>events := events w0 @
                 [Parse_multipart, Store_file ''9b1deb4d-3b7d-4bad-9bdd-2b0d7b3dcb6d.EXE'',
                  Unlink ''9b1deb4d-3b7d-4bad-9bdd-2b0d7b3dcb6d.EXE''] @
                 [Console_error ''Error deleting orphaned file:''],
          uploads_dir := (uploads_dir w0)(''9b1deb4d-3b7d-4bad-9bdd-2b0d7b3dcb6d.EXE'' \<mapsto> byte_count setup_exe)\<rparr>)"
    using upload_name_missing [OF sp1 nf, of w0] by (simp add: fn1)
  have sp2: "stored_part (Some ''s3cret'') e0 req0 = Some setup_exe"
    by (rule stored_part_req0) (simp add: e0_simps)
  have fn2: "storage_filename e0 setup_exe = ''9b1deb4d-3b7d-4bad-9bdd-2b0d7b3dcb6d.EXE''"
    by (rule storage_filename_setup) simp
  have B: "upload_handler (Some ''s3cret'') e0 req0 (w0\<lparr>metadata_file := Some Unparsable\<rparr>) =
     (Response 500 (Message ''Error saving software metadata.''),
      w0\<lparr>metadata_file := Some Unparsable,
         events := [Parse_multipart, Store_file ''9b1deb4d-3b7d-4bad-9bdd-2b0d7b3dcb6d.EXE'',
           Read_metadata, Console_error ''Error reading metadata:'',
           Console_error ''Error saving metadata:'',
           Unlink ''9b1deb4d-3b7d-4bad-9bdd-2b0d7b3dcb6d.EXE''],
         uploads_dir := (uploads_dir w0)(''9b1deb4d-3b7d-4bad-9bdd-2b0d7b3dcb6d.EXE'' := None)\<rparr>)"
    unfolding upload_stored [OF sp2]
    by (simp add: upload_callback_def save_record_def store_defs try_unlink_def unlink_def
        falsy_def req0_simps e0_simps w0_simps fn2 setup_exe_simps Let_def)
  show ?thesis
    using nf by (simp add: A B req0_simps setup_exe_simps w0_simps new_events_def)
qed

text \<open>
  C5, amended. For an upload that passes the token checks with a stored \<open>.exe\<close> file and
  a missing (or empty) name, the handler tries to unlink the file right after it was stored
  and answers 400 "Software name is required."; the metadata file is what it was; the file
  is gone unless the unlink fails, which is only logged. Over all uploads, the handler
  unlinks a file exactly when a file part was stored and either the name is missing or the
  metadata could not be saved.
\<close>

theorem missing_name_cleanup:
  "(stored_part tok e req = Some file \<and> falsy (softwareName req) \<longrightarrow>
      fst (upload_handler tok e req w) = Response 400 (Message ''Software name is required.'') \<and>
      metadata_file (snd (upload_handler tok e req w)) = metadata_file w \<and>
      new_events w (snd (upload_handler tok e req w)) =
        [Parse_multipart, Store_file (storage_filename e file), Unlink (storage_filename e file)] @
        (if unlink_fault e then [Console_error ''Error deleting orphaned file:''] else []) \<and>
      uploads_dir (snd (upload_handler tok e req w)) (storage_filename e file) =
        (if unlink_fault e then Some (byte_count file) else None)) \<and>
   ((\<exists>fn. Unlink fn \<in> set (new_events w (snd (upload_handler tok e req w)))) =
    (stored_part tok e req \<noteq> None \<and>
     (falsy (softwareName req) \<or> store_broken e w \<or> write_fault e)))"
proof (intro conjI impI)
  assume a: "stored_part tok e req = Some file \<and> falsy (softwareName req)"
  then show "fst (upload_handler tok e req w) = Response 400 (Message ''Software name is required.'')"
    by (simp add: upload_name_missing)
  from a show "metadata_file (snd (upload_handler tok e req w)) = metadata_file w"
    by (simp add: upload_name_missing)
  from a show "new_events w (snd (upload_handler tok e req w)) =
        [Parse_multipart, Store_file (storage_filename e file), Unlink (storage_filename e file)] @
        (if unlink_fault e then [Console_error ''Error deleting orphaned file:''] else [])"
    by (simp add: upload_name_missing)
  from a show "uploads_dir (snd (upload_handler tok e req w)) (storage_filename e file) =
        (if unlink_fault e then Some (byte_count file) else None)"
    by (simp add: upload_name_missing)
next
  show "(\<exists>fn. Unlink fn \<in> set (new_events w (snd (upload_handler tok e req w)))) =
    (stored_part tok e req \<noteq> None \<and>
     (falsy (softwareName req) \<or> store_broken e w \<or> write_fault e))"
  proof (cases "stored_part tok e req")
    case None
    from upload_not_stored [OF this, of w] show ?thesis
      using None by (auto simp: list_all_iff is_console_def)
  next
    case (Some f)
    show ?thesis
    proof (cases "falsy (softwareName req)")
      case True
      with Some show ?thesis by (simp add: upload_name_missing)
    next
      case nf: False
      show ?thesis
      proof (cases "store_broken e w \<or> write_fault e")
        case True
        show ?thesis
        proof (cases "store_broken e w")
          case sb: True
          from upload_read_failed [OF Some nf sb] show ?thesis
            using Some sb by auto
        next
          case sb: False
          with True have "write_fault e" by simp
          from upload_write_failed [OF Some nf sb this] show ?thesis
            using Some True by simp
        qed
      next
        case False
        then have "\<not> store_broken e w" "\<not> write_fault e" by simp_all
        from upload_saved [OF Some nf this] show ?thesis
          using Some nf False by simp
      qed
    qed
  qed
qed

theorem missing_name_cleanup_witness:
  "stored_part (Some ''s3cret'') e0 (req0\<lparr>softwareName := None\<rparr>) = Some setup_exe \<and>
   falsy (softwareName (req0\<lparr>softwareName := None\<rparr>)) \<and>
   fst (upload_handler (Some ''s3cret'') e0 (req0\<lparr>softwareName := None\<rparr>) w0) =
     Response 400 (Message ''Software name is required.'') \<and>
   metadata_file (snd (upload_handler (Some ''s3cret'') e0 (req0\<lparr>softwareName := None\<rparr>) w0)) =
     Some (Json (JArray [])) \<and>
   new_events w0 (snd (upload_handler (Some ''s3cret'') e0 (req0\<lparr>softwareName := None\<rparr>) w0)) =
     [Parse_multipart, Store_file ''9b1deb4d-3b7d-4bad-9bdd-2b0d7b3dcb6d.EXE'',
      Unlink ''9b1deb4d-3b7d-4bad-9bdd-2b0d7b3dcb6d.EXE''] \<and>
   uploads_dir (snd (upload_handler (Some ''s3cret'') e0 (req0\<lparr>softwareName := None\<rparr>) w0))
     ''9b1deb4d-3b7d-4bad-9bdd-2b0d7b3dcb6d.EXE'' = None"
proof -
  have sp: "stored_part (Some ''s3cret'') e0 (req0\<lparr>softwareName := None\<rparr>) = Some setup_exe"
    using stored_part_req0 [of e0]
    by (simp add: stored_part_def authorized_def req0_simps e0_simps)
  have nf: "falsy (softwareName (req0\<lparr>softwareName := None\<rparr>))" by (simp add: falsy_def)
  from missing_name_cleanup [of "Some ''s3cret''" e0 "req0\<lparr>softwareName := None\<rparr>" setup_exe w0] sp nf
  show ?thesis by (simp add: storage_filename_setup w0_simps e0_simps)
qed

section \<open>Download\<close>

text \<open>
  C8. A download whose file name contains \<open>..\<close> or \<open>/\<close> is answered with 400
  "Invalid filename." and the world is returned as it was: no file-system call is made.
\<close>

theorem download_rejects_traversal:
  assumes "includes_js requested ''..'' \<or> includes_js requested ''/''"
  shows "download_handler e requested w = (Response 400 (Text ''Invalid filename.''), w)"
  using assms by (simp add: download_handler_def)

theorem download_rejects_traversal_witness:
  "includes_js ''../../etc/passwd'' ''..'' \<and>
   download_handler e0 ''../../etc/passwd'' w0 = (Response 400 (Text ''Invalid filename.''), w0) \<and>
   includes_js ''a/b'' ''/'' \<and>
   download_handler e0 ''a/b'' w0 = (Response 400 (Text ''Invalid filename.''), w0)"
  using download_rejects_traversal [of "''../../etc/passwd''" e0 w0]
    download_rejects_traversal [of "''a/b''" e0 w0]
  by simp

section \<open>Listing\<close>

text \<open>
  C7, as the claim reads, fails when uploads overlap: two uploads that both read the
  metadata store before either writes it are both answered with 201, and the second write
  replaces the first, so that the listing holds one record after two successful uploads.
\<close>

theorem overlapping_uploads_counterexample:
  "map_option (\<lambda>(rA, rB, w'). (status rA, status rB, fst (list_handler e0 w')))
     (overlapped_uploads (Some ''s3cret'') e0 req0 e_later req0 w0) =
   Some (201, 201, Response 200 (Listing [later_record]))"
  by (simp add: overlapped_uploads_def upload_start_def upload_single_def upload_resume_def
      list_handler_def sort_newest_first_def store_defs falsy_def or_empty_def
      fileFilter_setup [unfolded setup_exe_def] storage_filename_def extname_setup
      fileSize_limit_def req0_simps e0_simps e_later_simps w0_simps setup_exe_def
      later_record_def Let_def)

text \<open>
  C7, amended. The listing returns every record of the store, the latest upload first; a
  store that cannot be read gives 500; the handler changes neither the upload directory nor
  the metadata file; and after N uploads that were all answered with 201 and were served
  one after the other, each answered before the next began, from an empty store, the
  listing holds exactly N records.
\<close>

theorem list_returns_all_sorted:
  "(\<not> store_broken e w \<longrightarrow>
      fst (list_handler e w) = Response 200 (Listing (sort_newest_first (stored_records w))) \<and>
      mset (sort_newest_first (stored_records w)) = mset (stored_records w) \<and>
      newest_first (sort_newest_first (stored_records w))) \<and>
   (store_broken e w \<longrightarrow>
      fst (list_handler e w) = Response 500 (Message ''Error fetching software list.'')) \<and>
   uploads_dir (snd (list_handler e w)) = uploads_dir w \<and>
   metadata_file (snd (list_handler e w)) = metadata_file w \<and>
   (\<not> store_broken e w \<and> stored_records w = [] \<and> run_uploads tok reqs w = (rs, w') \<and>
    list_all (\<lambda>r. status r = 201) rs \<longrightarrow>
      (\<exists>xs. fst (list_handler e w') = Response 200 (Listing xs) \<and>
            length xs = length reqs \<and> mset xs = mset (stored_records w') \<and> newest_first xs))"
proof (intro conjI impI)
  assume a: "\<not> store_broken e w \<and> stored_records w = [] \<and> run_uploads tok reqs w = (rs, w') \<and>
    list_all (\<lambda>r. status r = 201) rs"
  then have "\<not> store_broken e w' \<and>
         length (stored_records w') = length (stored_records w) + length reqs"
    by (intro run_uploads_created [of tok reqs w rs w' e]) simp_all
  with a have b: "\<not> store_broken e w'" and l: "length (stored_records w') = length reqs"
    by simp_all
  have "length (sort_newest_first (stored_records w')) = length (stored_records w')"
    by (simp add: sort_newest_first_def)
  with l b show "\<exists>xs. fst (list_handler e w') = Response 200 (Listing xs) \<and>
            length xs = length reqs \<and> mset xs = mset (stored_records w') \<and> newest_first xs"
    by (simp add: list_ok newest_first_sort mset_sort_newest_first)
qed (simp_all add: list_ok list_broken list_pure newest_first_sort mset_sort_newest_first)

theorem list_returns_all_sorted_witness:
  "\<not> store_broken e0 w1 \<and>
   fst (list_handler e0 w1) = Response 200 (Listing [app_record]) \<and>
   store_broken e0 (w0\<lparr>metadata_file := Some Unparsable\<rparr>) \<and>
   fst (list_handler e0 (w0\<lparr>metadata_file := Some Unparsable\<rparr>)) =
     Response 500 (Message ''Error fetching software list.'') \<and>
   \<not> store_broken e0 w0 \<and> stored_records w0 = [] \<and>
   list_all (\<lambda>r. status r = 201)
     (fst (run_uploads (Some ''s3cret'') [(e0, req0), (e_later, req0)] w0)) \<and>
   (\<exists>xs. fst (list_handler e0 (snd (run_uploads (Some ''s3cret'') [(e0, req0), (e_later, req0)] w0))) =
           Response 200 (Listing xs) \<and>
         length xs = 2 \<and> newest_first xs)"
proof -
  have a: "\<not> store_broken e0 w1" "stored_records w1 = [app_record]"
    by (simp_all add: store_broken_def stored_records_def e0_simps w1_simps)
  have b: "store_broken e0 (w0\<lparr>metadata_file := Some Unparsable\<rparr>)"
    by (simp add: store_broken_def)
  have c: "\<not> store_broken e0 w0" "stored_records w0 = []"
    by (simp_all add: store_broken_def stored_records_def e0_simps w0_simps)
  have d: "list_all (\<lambda>r. status r = 201)
     (fst (run_uploads (Some ''s3cret'') [(e0, req0), (e_later, req0)] w0))"
    using upload_later [of "[Parse_multipart, Store_file ''9b1deb4d-3b7d-4bad-9bdd-2b0d7b3dcb6d.EXE'',
                      Read_metadata, Write_metadata]"]
    by (simp add: upload_req0 case_prod_beta)
  have s: "sort_newest_first [app_record] = [app_record]"
    by (simp add: sort_newest_first_def)
  from list_returns_all_sorted [of e0 w0 "Some ''s3cret''" "[(e0, req0), (e_later, req0)]"
      "fst (run_uploads (Some ''s3cret'') [(e0, req0), (e_later, req0)] w0)"
      "snd (run_uploads (Some ''s3cret'') [(e0, req0), (e_later, req0)] w0)"] c d
  have "\<exists>xs. fst (list_handler e0 (snd (run_uploads (Some ''s3cret'') [(e0, req0), (e_later, req0)] w0))) =
           Response 200 (Listing xs) \<and>
         length xs = length [(e0, req0), (e_later, req0)] \<and>
         mset xs = mset (stored_records (snd (run_uploads (Some ''s3cret'') [(e0, req0), (e_later, req0)] w0))) \<and>
         newest_first xs"
    by (simp del: run_uploads.simps)
  then have e: "\<exists>xs. fst (list_handler e0 (snd (run_uploads (Some ''s3cret'') [(e0, req0), (e_later, req0)] w0))) =
           Response 200 (Listing xs) \<and>
         length xs = 2 \<and> newest_first xs"
    by auto
  from list_returns_all_sorted [of e0 w1 "Some ''s3cret''" "[]" "[]" w1]
    list_returns_all_sorted [of e0 "w0\<lparr>metadata_file := Some Unparsable\<rparr>" "Some ''s3cret''" "[]" "[]" w1]
    a b c d e
  show ?thesis by (simp del: run_uploads.simps add: s)
qed

section \<open>Storage failures\<close>

text \<open>
  The upload and listing handlers answer a metadata store that cannot be read or written
  with 500 and a fixed message.
\<close>

lemma metadata_failure_500:
  "(store_broken e w \<longrightarrow>
      fst (list_handler e w) = Response 500 (Message ''Error fetching software list.'')) \<and>
   (stored_part tok e req = Some part \<and> \<not> falsy (softwareName req) \<and>
    (store_broken e w \<or> write_fault e) \<longrightarrow>
      fst (upload_handler tok e req w) = Response 500 (Message ''Error saving software metadata.''))"
proof (intro conjI impI)
  assume "store_broken e w"
  then show "fst (list_handler e w) = Response 500 (Message ''Error fetching software list.'')"
    by (rule list_broken)
next
  assume a: "stored_part tok e req = Some part \<and> \<not> falsy (softwareName req) \<and>
    (store_broken e w \<or> write_fault e)"
  show "fst (upload_handler tok e req w) = Response 500 (Message ''Error saving software metadata.'')"
  proof (cases "store_broken e w")
    case True
    with a upload_read_failed [of tok e req part w] show ?thesis by simp
  next
    case False
    with a upload_write_failed [of tok e req part w] show ?thesis by simp
  qed
qed

text \<open>
  C3. Every handler is to answer an unexpected failure of the metadata store or of the file
  system with 500 and a fixed message. The code misses this at two places. The download
  handler reads the store inside the \<^verbatim>\<open>try\<close> block whose \<^verbatim>\<open>catch\<close> is written for
  \<^verbatim>\<open>fs.access\<close>: with a store that does not parse, a download of a file that exists is
  answered with 404 "File not found.", where the listing and the upload answer the same
  store with 500. And the upload handler answers a failed write of the uploaded file through
  its branch for unknown upload errors: with 400 and the error's own message.
\<close>

theorem storage_failure_misreported:
  "uploads_dir (w1\<lparr>metadata_file := Some Unparsable\<rparr>)
     ''9b1deb4d-3b7d-4bad-9bdd-2b0d7b3dcb6d.EXE'' = Some 1000 \<and>
   fst (download_handler e0 ''9b1deb4d-3b7d-4bad-9bdd-2b0d7b3dcb6d.EXE''
          (w1\<lparr>metadata_file := Some Unparsable\<rparr>)) =
     Response 404 (Text ''File not found.'') \<and>
   fst (list_handler e0 (w1\<lparr>metadata_file := Some Unparsable\<rparr>)) =
     Response 500 (Message ''Error fetching software list.'') \<and>
   fst (upload_handler (Some ''s3cret'') e_later req0 (w1\<lparr>metadata_file := Some Unparsable\<rparr>)) =
     Response 500 (Message ''Error saving software metadata.'') \<and>
   fst (upload_handler (Some ''s3cret'')
          (e0\<lparr>store_fault := Some ''ENOSPC: no space left on device, write''\<rparr>) req0 w0) =
     Response 400 (Message ''ENOSPC: no space left on device, write'')"
proof -
  have d: "fst (download_handler e0 ''9b1deb4d-3b7d-4bad-9bdd-2b0d7b3dcb6d.EXE''
          (w1\<lparr>metadata_file := Some Unparsable\<rparr>)) =
     Response 404 (Text ''File not found.'')"
    by (simp add: download_handler_def access_def store_defs Let_def w1_simps e0_simps)
  have l: "fst (list_handler e0 (w1\<lparr>metadata_file := Some Unparsable\<rparr>)) =
     Response 500 (Message ''Error fetching software list.'')"
    by (simp add: list_broken store_broken_def)
  have sp: "stored_part (Some ''s3cret'') e_later req0 = Some setup_exe"
    by (rule stored_part_req0) (simp add: e_later_simps)
  have nf: "\<not> falsy (softwareName req0)" by (simp add: falsy_def req0_simps)
  have sb: "store_broken e_later (w1\<lparr>metadata_file := Some Unparsable\<rparr>)"
    by (simp add: store_broken_def)
  have u: "fst (upload_handler (Some ''s3cret'') e_later req0 (w1\<lparr>metadata_file := Some Unparsable\<rparr>)) =
     Response 500 (Message ''Error saving software metadata.'')"
    using upload_read_failed [OF sp nf sb] by simp
  have f: "fst (upload_handler (Some ''s3cret'')
          (e0\<lparr>store_fault := Some ''ENOSPC: no space left on device, write''\<rparr>) req0 w0) =
     Response 400 (Message ''ENOSPC: no space left on device, write'')"
    by (simp add: upload_handler_def upload_single_def upload_callback_def falsy_def req0_simps
        fileFilter_setup log_def Let_def)
  from d l u f show ?thesis by (simp add: w1_simps)
qed

section \<open>Generated file names\<close>

text \<open>
  C10. The \<open>serverFilename\<close> of a record created by an upload is the UUID drawn for the
  file followed by the extension of the original name; it contains neither \<open>..\<close> nor
  \<open>/\<close>, so the download handler never answers it with 400; and the upload directory
  holds a file of that name and of the recorded size.
\<close>

theorem server_filename_safe:
  assumes "is_uuid (file_uuid e)"
    and "fst (upload_handler tok e req w) = Response 201 (Created msg r)"
  shows "(\<exists>part. file_parts req = [(''softwareFile'', part)] \<and>
            serverFilename r = file_uuid e @ extname (originalname part)) \<and>
         \<not> includes_js (serverFilename r) ''..'' \<and>
         \<not> includes_js (serverFilename r) ''/'' \<and>
         status (fst (download_handler e' (serverFilename r) w')) \<noteq> 400 \<and>
         uploads_dir (snd (upload_handler tok e req w)) (serverFilename r) = Some (size' r)"
proof -
  from assms(2) have "status (fst (upload_handler tok e req w)) = 201" by simp
  from upload_created [OF this] obtain part where
    s: "stored_part tok e req = Some part" "\<not> falsy (softwareName req)"
       "\<not> store_broken e w" "\<not> write_fault e" by blast
  from upload_saved [OF s] assms(2) have r: "r = new_record e req part" by simp
  from s(1) have p: "file_parts req = [(''softwareFile'', part)]" "fileFilter part"
    by (auto simp: stored_part_def split: list.splits prod.splits if_splits)
  from r have n: "serverFilename r = storage_filename e part" "size' r = byte_count part"
    by (simp_all add: new_record_def)
  from storage_filename_safe [OF assms(1) p(2)] n
  have v: "\<not> includes_js (serverFilename r) ''..''" "\<not> includes_js (serverFilename r) ''/''"
    by simp_all
  from download_status [OF v, of e' w']
  have d: "status (fst (download_handler e' (serverFilename r) w')) \<noteq> 400" by auto
  from upload_saved [OF s] n
  have u: "uploads_dir (snd (upload_handler tok e req w)) (serverFilename r) = Some (size' r)"
    by simp
  from p(1) n(1) v d u show ?thesis by (simp add: storage_filename_def)
qed

theorem server_filename_safe_witness:
  "is_uuid (file_uuid e0) \<and>
   fst (upload_handler (Some ''s3cret'') e0 req0 w0) =
     Response 201 (Created ''Software uploaded successfully!'' app_record) \<and>
   serverFilename app_record = ''9b1deb4d-3b7d-4bad-9bdd-2b0d7b3dcb6d.EXE'' \<and>
   \<not> includes_js (serverFilename app_record) ''..'' \<and>
   \<not> includes_js (serverFilename app_record) ''/'' \<and>
   status (fst (download_handler e0 (serverFilename app_record) w1)) \<noteq> 400"
proof -
  have u: "is_uuid (file_uuid e0)"
    by (simp add: is_uuid_def e0_simps uuid_shape_def hex_digit_def)
  have r: "fst (upload_handler (Some ''s3cret'') e0 req0 w0) =
     Response 201 (Created ''Software uploaded successfully!'' app_record)"
    by (simp add: upload_req0)
  from server_filename_safe [OF u r, of e0 w1] u r
  show ?thesis by (simp add: app_record_def)
qed

end
